theory Spec2Isabelle
  imports Complex_Main
begin

section \<open>Numbers\<close>

text \<open>
  A TypeScript \<open>number\<close> is an IEEE-754 double. \<open>to_double\<close> rounds a real to the
  nearest double, a tie going to the even significand: 53 significant bits at the
  exponent of the value (\<open>binade\<close>), or the fixed spacing of the subnormal range below
  it. Overflow to an infinity is not part of it; the operations it follows below only
  make a value smaller.

  In \<open>calculateMacros\<close> every constant and every operation is followed by this rounding:
  its products with 0.35 and 0.30 are not doubles, and the rounding decides the gram
  figure near a half (2600 * 0.35 is 909.9999999999999). The expressions of the BMR and
  the TDEE are written over the reals, and the non-finite inputs (\<open>NaN\<close>,
  \<open>Infinity\<close>) a caller could pass are left out. The one place where the source itself
  can produce a non-finite value from finite ones, the division in
  \<open>validateNutritionGoals\<close>, is modelled with an explicit result type below.

  \<open>Math.round\<close> returns the integer nearest to its argument, a tie going up
  (towards plus infinity); on a double it is exact.
\<close>

definition Math_round :: "real \<Rightarrow> real" where
  "Math_round x = of_int \<lfloor>x + 1 / 2\<rfloor>"

text \<open>The exponent of the power of two at or below the magnitude of \<open>x\<close>.\<close>

function binade :: "real \<Rightarrow> int" where
  "binade x =
     (if x = 0 then 0
      else if 2 \<le> \<bar>x\<bar> then binade (x / 2) + 1
      else if \<bar>x\<bar> < 1 then binade (x * 2) - 1
      else 0)"
  by pat_completeness auto

termination
proof (relation "measure (\<lambda>x. nat \<bar>\<lfloor>log 2 \<bar>x\<bar>\<rfloor>\<bar>)")
  show "wf (measure (\<lambda>x. nat \<bar>\<lfloor>log 2 \<bar>x\<bar>\<rfloor>\<bar>))" by simp
next
  fix x :: real
  assume nz: "x \<noteq> 0" and big: "2 \<le> \<bar>x\<bar>"
  have "log 2 \<bar>x / 2\<bar> = log 2 \<bar>x\<bar> - 1"
    using nz by (simp add: log_divide)
  moreover have "1 \<le> log 2 \<bar>x\<bar>"
    using big by (simp add: le_log_iff)
  ultimately show "(x / 2, x) \<in> measure (\<lambda>x. nat \<bar>\<lfloor>log 2 \<bar>x\<bar>\<rfloor>\<bar>)"
    by (simp add: le_floor_iff; linarith)
next
  fix x :: real
  assume nz: "x \<noteq> 0" and "\<not> 2 \<le> \<bar>x\<bar>" and small: "\<bar>x\<bar> < 1"
  have "log 2 \<bar>x * 2\<bar> = log 2 \<bar>x\<bar> + 1"
    using nz by (simp add: log_mult abs_mult)
  moreover have "log 2 \<bar>x\<bar> < 0"
    using small nz by simp
  then have "\<lfloor>log 2 \<bar>x\<bar>\<rfloor> < 0"
    by (simp add: floor_less_iff)
  ultimately show "(x * 2, x) \<in> measure (\<lambda>x. nat \<bar>\<lfloor>log 2 \<bar>x\<bar>\<rfloor>\<bar>)"
    by (simp; linarith)
qed

declare binade.simps [simp del]

definition roundTiesToEven :: "real \<Rightarrow> int" where
  "roundTiesToEven y =
     (let f = \<lfloor>y\<rfloor>; r = y - of_int f
      in if r < 1 / 2 then f else if 1 / 2 < r then f + 1 else if even f then f else f + 1)"

definition to_double :: "real \<Rightarrow> real" where
  "to_double x =
     (let e = max (binade x - 52) (- 1074)
      in of_int (roundTiesToEven (x / 2 powi e)) * 2 powi e)"

section \<open>The nutrition types (types/nutrition.ts)\<close>

datatype gender = Male | Female

datatype activityLevel = Sedentary | Light | Moderate | Active | VeryActive

datatype goal = Lose | Maintain | Gain

record MacroGoals =
  protein :: real
  carbs :: real
  fats :: real
  calories :: real

record NutritionProfile =
  userId :: string
  tdee :: real
  bmr :: real
  goal :: goal
  target_calories :: real
  macro_goals :: MacroGoals
  dietary_restrictions :: "string list"
  allergies :: "string list"
  preferences :: "string list"
  meal_timing :: "string list"

section \<open>NutritionService (services/nutritionService.ts)\<close>

text \<open>The lookup table \<open>activityMultipliers\<close> of \<open>calculateTDEE\<close>.\<close>

fun activityMultipliers :: "activityLevel \<Rightarrow> real" where
  "activityMultipliers Sedentary = 12 / 10"
| "activityMultipliers Light = 1375 / 1000"
| "activityMultipliers Moderate = 155 / 100"
| "activityMultipliers Active = 1725 / 1000"
| "activityMultipliers VeryActive = 19 / 10"

text \<open>
  The basal metabolic rate (Mifflin-St Jeor). The source writes the expression twice,
  in \<open>calculateTDEE\<close> and again in \<open>createNutritionProfile\<close>; both are this one.
\<close>

definition mifflin_bmr :: "real \<Rightarrow> real \<Rightarrow> real \<Rightarrow> gender \<Rightarrow> real" where
  "mifflin_bmr w h a g =
     (if g = Male then 10 * w + (625 / 100) * h - 5 * a + 5
      else 10 * w + (625 / 100) * h - 5 * a - 161)"

definition calculateTDEE :: "real \<Rightarrow> real \<Rightarrow> real \<Rightarrow> gender \<Rightarrow> activityLevel \<Rightarrow> real" where
  "calculateTDEE w h a g lvl = Math_round (mifflin_bmr w h a g * activityMultipliers lvl)"

text \<open>
  The \<open>switch\<close> of \<open>calculateMacros\<close>: the triple is
  (proteinPercent, fatPercent, carbPercent), each the double of its decimal literal;
  \<open>maintain\<close> is the \<open>default\<close> branch.
\<close>

fun macroPercents :: "goal \<Rightarrow> real \<times> real \<times> real" where
  "macroPercents Lose = (to_double (35 / 100), to_double (30 / 100), to_double (35 / 100))"
| "macroPercents Gain = (to_double (25 / 100), to_double (25 / 100), to_double (50 / 100))"
| "macroPercents Maintain = (to_double (30 / 100), to_double (30 / 100), to_double (40 / 100))"

text \<open>The product and the quotient are each rounded to a double before \<open>Math.round\<close>.\<close>

definition calculateMacros :: "real \<Rightarrow> goal \<Rightarrow> MacroGoals" where
  "calculateMacros cal gl =
     (case macroPercents gl of (proteinPercent, fatPercent, carbPercent) \<Rightarrow>
        \<lparr> protein = Math_round (to_double (to_double (cal * proteinPercent) / 4)),
          carbs = Math_round (to_double (to_double (cal * carbPercent) / 4)),
          fats = Math_round (to_double (to_double (cal * fatPercent) / 9)),
          calories = cal \<rparr>)"

fun calculateTargetCalories :: "real \<Rightarrow> goal \<Rightarrow> real" where
  "calculateTargetCalories t Lose = max 1200 (t - 500)"
| "calculateTargetCalories t Gain = t + 400"
| "calculateTargetCalories t Maintain = t"

definition createNutritionProfile ::
  "string \<Rightarrow> real \<Rightarrow> real \<Rightarrow> real \<Rightarrow> gender \<Rightarrow> activityLevel \<Rightarrow> goal
     \<Rightarrow> string list \<Rightarrow> string list \<Rightarrow> NutritionProfile" where
  "createNutritionProfile uid w h a g lvl gl dietaryRestrictions allergs =
     (let t = calculateTDEE w h a g lvl;
          b = mifflin_bmr w h a g;
          targetCalories = calculateTargetCalories t gl;
          macroGoals = calculateMacros targetCalories gl
      in \<lparr> userId = uid,
           tdee = t,
           bmr = Math_round b,
           goal = gl,
           target_calories = targetCalories,
           macro_goals = macroGoals,
           dietary_restrictions = dietaryRestrictions,
           allergies = allergs,
           preferences = [],
           meal_timing = [''breakfast'', ''lunch'', ''dinner'', ''snack''] \<rparr>)"

text \<open>
  Neither \<open>createNutritionProfile\<close> nor any method it calls contains a \<open>throw\<close>, a
  range check or another validation step, and arithmetic on numbers does not throw in
  JavaScript. As a result value (\<open>Inl\<close> an error, \<open>Inr\<close> the profile) the call is
  therefore always \<open>Inr\<close>. The error type has the one kind the specification names, with
  the offending field.
\<close>

datatype error = InvalidInputError string

definition createNutritionProfile_result ::
  "string \<Rightarrow> real \<Rightarrow> real \<Rightarrow> real \<Rightarrow> gender \<Rightarrow> activityLevel \<Rightarrow> goal
     \<Rightarrow> string list \<Rightarrow> string list \<Rightarrow> error + NutritionProfile" where
  "createNutritionProfile_result uid w h a g lvl gl dietaryRestrictions allergs =
     Inr (createNutritionProfile uid w h a g lvl gl dietaryRestrictions allergs)"

text \<open>The energy of a macro split: 4 kcal per gram of protein and carbohydrate, 9 per gram of fat.\<close>

definition macro_kcal :: "MacroGoals \<Rightarrow> real" where
  "macro_kcal m = protein m * 4 + carbs m * 4 + fats m * 9"

subsection \<open>validateNutritionGoals\<close>

text \<open>
  The result of a JavaScript division of two finite numbers: a finite quotient, or, for
  a zero divisor, an infinity or \<open>NaN\<close> (no exception is thrown). The sign of a
  negative zero is not modelled. A comparison with \<open>NaN\<close> is false.
\<close>

datatype jsnum = Num real | PosInfinity | NegInfinity | NaN

definition js_div :: "real \<Rightarrow> real \<Rightarrow> jsnum" where
  "js_div x y =
     (if y \<noteq> 0 then Num (x / y)
      else if 0 < x then PosInfinity
      else if x < 0 then NegInfinity
      else NaN)"

text \<open>Multiplication by a positive finite number, as in \<open>(... / ...) * 100\<close>.\<close>

fun js_times_pos :: "jsnum \<Rightarrow> real \<Rightarrow> jsnum" where
  "js_times_pos (Num x) c = Num (x * c)"
| "js_times_pos PosInfinity c = PosInfinity"
| "js_times_pos NegInfinity c = NegInfinity"
| "js_times_pos NaN c = NaN"

fun js_less :: "jsnum \<Rightarrow> real \<Rightarrow> bool" where
  "js_less (Num x) c = (x < c)"
| "js_less PosInfinity c = False"
| "js_less NegInfinity c = True"
| "js_less NaN c = False"

definition calories_too_low :: string where
  "calories_too_low = ''Calorie target may be too low for safe weight loss''"

definition protein_too_low :: string where
  "protein_too_low = ''Protein intake may be insufficient for muscle maintenance''"

definition fat_too_low :: string where
  "fat_too_low = ''Fat intake may be too low for hormone production and nutrient absorption''"

record validation =
  valid :: bool
  warnings :: "string list"

text \<open>The three \<open>if\<close> statements run one after the other, each pushing onto the same array.\<close>

definition validateNutritionGoals :: "NutritionProfile \<Rightarrow> validation" where
  "validateNutritionGoals profile =
     (let ws0 = [];
          ws1 = (if target_calories profile < 1200 then ws0 @ [calories_too_low] else ws0);
          proteinCalories = protein (macro_goals profile) * 4;
          proteinPercent = js_times_pos (js_div proteinCalories (target_calories profile)) 100;
          ws2 = (if js_less proteinPercent 15 then ws1 @ [protein_too_low] else ws1);
          fatCalories = fats (macro_goals profile) * 9;
          fatPercent = js_times_pos (js_div fatCalories (target_calories profile)) 100;
          ws3 = (if js_less fatPercent 20 then ws2 @ [fat_too_low] else ws2)
      in \<lparr> valid = (length ws3 = 0), warnings = ws3 \<rparr>)"

section \<open>The dashboard statistics (services/authService.ts)\<close>

text \<open>
  A \<open>Date\<close> is its time value (\<open>getTime()\<close>), the milliseconds since the epoch in UTC,
  as an \<open>int\<close>. \<open>setHours\<close>, \<open>getDate\<close> and \<open>setDate\<close> work on the local time of the
  runtime, so the time zone is a parameter: its offset from UTC in milliseconds, as a
  function of a time value (\<open>LocalTZA(t, true)\<close> of ECMA-262) and as a function of a
  local time (\<open>LocalTZA(t, false)\<close>). \<open>LocalTime\<close>, \<open>UTC\<close> and \<open>Day\<close> are the abstract
  operations of ECMA-262 with these names; \<open>TimeClip\<close> is left out (it changes nothing
  within 100 million days of the epoch).
\<close>

definition msPerDay :: int where
  "msPerDay = 24 * 60 * 60 * 1000"

record TimeZone =
  offset_at_utc :: "int \<Rightarrow> int"
  offset_at_local :: "int \<Rightarrow> int"

definition LocalTime :: "TimeZone \<Rightarrow> int \<Rightarrow> int" where
  "LocalTime tz t = t + offset_at_utc tz t"

definition UTC :: "TimeZone \<Rightarrow> int \<Rightarrow> int" where
  "UTC tz t = t - offset_at_local tz t"

definition Day :: "int \<Rightarrow> int" where
  "Day t = t div msPerDay"

text \<open>
  \<open>d.setHours(0, 0, 0, 0)\<close>: the local day of \<open>d\<close> with the time within the day set to 0,
  taken back to UTC.
\<close>

definition setHours_midnight :: "TimeZone \<Rightarrow> int \<Rightarrow> int" where
  "setHours_midnight tz t = UTC tz (Day (LocalTime tz t) * msPerDay + 0)"

text \<open>
  \<open>d.setDate(d.getDate() - 1)\<close>: the day before the local day of \<open>d\<close> with the local
  time within the day kept, taken back to UTC.
\<close>

definition setDate_yesterday :: "TimeZone \<Rightarrow> int \<Rightarrow> int" where
  "setDate_yesterday tz t =
     UTC tz ((Day (LocalTime tz t) - 1) * msPerDay + LocalTime tz t mod msPerDay)"

text \<open>
  A zone of constant offset, and a zone whose offset changes once, at the time value
  \<open>change\<close>. A local time that the change skips or repeats has the offset of before the
  change, as ECMA-262 has it.
\<close>

definition fixed_zone :: "int \<Rightarrow> TimeZone" where
  "fixed_zone off = \<lparr> offset_at_utc = (\<lambda>t. off), offset_at_local = (\<lambda>t. off) \<rparr>"

definition zone_with_change :: "int \<Rightarrow> int \<Rightarrow> int \<Rightarrow> TimeZone" where
  "zone_with_change before change after =
     \<lparr> offset_at_utc = (\<lambda>t. if t < change then before else after),
       offset_at_local = (\<lambda>t. if t < change + max before after then before else after) \<rparr>"

record WorkoutSession =
  session_id :: string
  date :: int
  calories_burned :: real
  completed :: bool

record ProgressMetrics =
  metric_date :: int
  weight :: "real option"
  body_fat_percentage :: "real option"

record DashboardStats =
  workoutStreak :: nat
  totalWorkouts :: nat
  caloriesBurned :: real
  weeklyGoalProgress :: real
  recentWeight :: "real option"

text \<open>
  The Firestore queries, on the documents of the user (the \<open>where('userId', '==', userId)\<close>
  clause selects them): \<open>orderBy('date', 'desc')\<close> with \<open>limit\<close>, and the range
  clause \<open>where('date', '>=', ...)\<close>. The order among documents of equal date is the
  stored one here; no theorem below depends on it.
\<close>

definition getUserWorkoutSessions :: "WorkoutSession list \<Rightarrow> nat \<Rightarrow> WorkoutSession list" where
  "getUserWorkoutSessions docs limitCount = take limitCount (sort_key (\<lambda>s. - date s) docs)"

definition recentSessionsQuery :: "WorkoutSession list \<Rightarrow> int \<Rightarrow> WorkoutSession list" where
  "recentSessionsQuery docs oneMonthAgo =
     sort_key (\<lambda>s. - date s) (filter (\<lambda>s. oneMonthAgo \<le> date s) docs)"

definition getLatestProgressMetrics :: "ProgressMetrics list \<Rightarrow> ProgressMetrics option" where
  "getLatestProgressMetrics docs =
     (case take 1 (sort_key (\<lambda>m. - metric_date m) docs) of
        [] \<Rightarrow> None
      | doc # _ \<Rightarrow> Some doc)"

text \<open>\<open>progressMetrics?.weight\<close>: absent when there is no document or it has no weight.\<close>

definition recentWeight_of :: "ProgressMetrics list \<Rightarrow> real option" where
  "recentWeight_of docs =
     (case getLatestProgressMetrics docs of None \<Rightarrow> None | Some m \<Rightarrow> weight m)"

text \<open>
  The streak loop over \<open>sortedSessions\<close>, with the mutable \<open>checkDate\<close> and
  \<open>workoutStreak\<close> as arguments; \<open>break\<close> returns the count reached.
\<close>

fun streak_loop :: "TimeZone \<Rightarrow> WorkoutSession list \<Rightarrow> int \<Rightarrow> nat \<Rightarrow> nat" where
  "streak_loop tz [] checkDate streak = streak"
| "streak_loop tz (session # rest) checkDate streak =
     (let sessionDate = setHours_midnight tz (date session)
      in if sessionDate = checkDate
         then streak_loop tz rest (setDate_yesterday tz checkDate) (streak + 1)
         else if sessionDate < checkDate then streak
         else streak_loop tz rest checkDate streak)"

text \<open>
  \<open>allSessions.sort((a, b) => b.date.getTime() - a.date.getTime())\<close> is a stable sort,
  latest first. \<open>clock\<close> is the reading of \<open>new Date()\<close> that initialises
  \<open>checkDate\<close>.
\<close>

definition workoutStreak_of :: "TimeZone \<Rightarrow> WorkoutSession list \<Rightarrow> int \<Rightarrow> nat" where
  "workoutStreak_of tz allSessions clock =
     streak_loop tz (sort_key (\<lambda>s. - date s) allSessions) (setHours_midnight tz clock) 0"

text \<open>
  The weekly progress from the documents of \<open>recentSessions\<close>. Their \<open>date\<close> field is
  present (the query that returns them has a range clause on it), so the fallback
  \<open>|| new Date()\<close> of the filter is not taken.
\<close>

definition thisWeekSessions_of :: "WorkoutSession list \<Rightarrow> int \<Rightarrow> nat" where
  "thisWeekSessions_of recentSessions oneWeekAgo =
     length (filter (\<lambda>s. oneWeekAgo \<le> date s) recentSessions)"

definition weeklyGoalProgress_of :: "WorkoutSession list \<Rightarrow> int \<Rightarrow> real" where
  "weeklyGoalProgress_of recentSessions now =
     (let oneWeekAgo = now - 7 * 24 * 60 * 60 * 1000;
          weeklyGoal = 4;
          thisWeekSessions = thisWeekSessions_of recentSessions oneWeekAgo
      in min ((real thisWeekSessions / weeklyGoal) * 100) 100)"

text \<open>
  \<open>getUserDashboardStats\<close> on the stored documents, in the time zone of the runtime;
  \<open>now\<close> is the first reading of the clock and \<open>clock\<close> the later one of the streak.
\<close>

definition getUserDashboardStats ::
  "TimeZone \<Rightarrow> WorkoutSession list \<Rightarrow> ProgressMetrics list \<Rightarrow> int \<Rightarrow> int \<Rightarrow> DashboardStats" where
  "getUserDashboardStats tz sessionDocs metricDocs now clock =
     (let oneMonthAgo = now - 30 * 24 * 60 * 60 * 1000;
          allSessions = getUserWorkoutSessions sessionDocs 100;
          recentSessions = recentSessionsQuery sessionDocs oneMonthAgo
      in \<lparr> workoutStreak = workoutStreak_of tz allSessions clock,
           totalWorkouts = length allSessions,
           caloriesBurned = fold (\<lambda>doc total. total + calories_burned doc) recentSessions 0,
           weeklyGoalProgress = weeklyGoalProgress_of recentSessions now,
           recentWeight = recentWeight_of metricDocs \<rparr>)"

section \<open>The descriptions the statistics are compared with\<close>

text \<open>
  The most recent weight in the specification's words: the weight of the sample with the
  latest date among the samples that have a weight; absent if there is none.
\<close>

definition most_recent_weight_spec :: "ProgressMetrics list \<Rightarrow> real option" where
  "most_recent_weight_spec samples =
     (case sort_key (\<lambda>m. - metric_date m) (filter (\<lambda>m. weight m \<noteq> None) samples) of
        [] \<Rightarrow> None
      | m # _ \<Rightarrow> weight m)"

text \<open>
  The weekly progress in the specification's words: the sessions within the trailing
  seven days, a window that ends at the reference time, over the target of 4, as a
  percentage clamped to the range from 0 to 100.
\<close>

definition weekly_goal_progress_spec :: "WorkoutSession list \<Rightarrow> int \<Rightarrow> real" where
  "weekly_goal_progress_spec sessions as_of =
     (let n = length (filter (\<lambda>s. as_of - 7 * msPerDay \<le> date s \<and> date s \<le> as_of) sessions)
      in max 0 (min 100 (real n / 4 * 100)))"

text \<open>
  The local calendar day of a time value, as a day number; a session falls on the local
  day \<open>d\<close>; the number of sessions dated at or after \<open>t\<close>.
\<close>

definition local_day :: "TimeZone \<Rightarrow> int \<Rightarrow> int" where
  "local_day tz t = Day (LocalTime tz t)"

definition on_day :: "TimeZone \<Rightarrow> WorkoutSession list \<Rightarrow> int \<Rightarrow> bool" where
  "on_day tz sessions d = (\<exists>s \<in> set sessions. local_day tz (date s) = d)"

definition sessions_since :: "WorkoutSession list \<Rightarrow> int \<Rightarrow> nat" where
  "sessions_since sessions t = length (filter (\<lambda>s. t \<le> date s) sessions)"

section \<open>Example values\<close>

text \<open>
  A session with the given date, a metric sample with the given date and weight, and a
  profile with the given target calories and macro goals; the other fields play no part
  in the functions above.
\<close>

definition session_at :: "int \<Rightarrow> WorkoutSession" where
  "session_at t = \<lparr> session_id = [], date = t, calories_burned = 0, completed = True \<rparr>"

definition sample_at :: "int \<Rightarrow> real option \<Rightarrow> ProgressMetrics" where
  "sample_at t w = \<lparr> metric_date = t, weight = w, body_fat_percentage = None \<rparr>"

definition profile_with :: "real \<Rightarrow> real \<Rightarrow> real \<Rightarrow> real \<Rightarrow> NutritionProfile" where
  "profile_with target p c f =
     \<lparr> userId = [], tdee = target, bmr = target, goal = Maintain, target_calories = target,
       macro_goals = \<lparr> protein = p, carbs = c, fats = f, calories = target \<rparr>,
       dietary_restrictions = [], allergies = [], preferences = [], meal_timing = [] \<rparr>"

text \<open>
  America/Santiago between April 2023 and April 2024: the clocks went from 24:00 of
  2 September 2023 to 01:00 of 3 September (04:00 UTC), the offset from -4 h to -3 h.
\<close>

definition america_santiago :: TimeZone where
  "america_santiago = zone_with_change (- 4 * 60 * 60 * 1000) 1693713600000 (- 3 * 60 * 60 * 1000)"

section \<open>Target calories\<close>

text \<open>
  C5. For every tdee, \<open>calculateTargetCalories\<close> returns \<open>max(1200, tdee - 500)\<close> for the
  goal lose, \<open>tdee + 400\<close> for gain and \<open>tdee\<close> unchanged for maintain; for lose with
  tdee 1500 the result is 1200.
\<close>

theorem calculateTargetCalories_by_goal:
  "calculateTargetCalories t Lose = max 1200 (t - 500)
   \<and> calculateTargetCalories t Gain = t + 400
   \<and> calculateTargetCalories t Maintain = t
   \<and> calculateTargetCalories 1500 Lose = 1200"
  by simp

text \<open>
  C9. For male, weight 70, height 175, age 30 and moderate activity, the BMR of the
  Mifflin-St Jeor formula (1648.75) rounds to 1649, and the TDEE, the BMR times 1.55
  rounded to the nearest integer, is 2556; the profile has these two values whatever
  the goal.
\<close>

theorem bmr_tdee_example:
  "mifflin_bmr 70 175 30 Male = 164875 / 100
   \<and> Math_round (mifflin_bmr 70 175 30 Male) = 1649
   \<and> calculateTDEE 70 175 30 Male Moderate = 2556
   \<and> bmr (createNutritionProfile uid 70 175 30 Male Moderate gl dr al) = 1649
   \<and> tdee (createNutritionProfile uid 70 175 30 Male Moderate gl dr al) = 2556"
  by (simp add: createNutritionProfile_def calculateTDEE_def mifflin_bmr_def Math_round_def
      Let_def)

section \<open>The profile has no error path\<close>

text \<open>
  C1, as the specification has it: a non-positive weight, height or age raises
  InvalidInputError with the name of the field. The code does not: with weight 0 the
  call returns a profile, of BMR 949 and TDEE 1471.
\<close>

theorem createNutritionProfile_zero_weight_returns:
  "createNutritionProfile_result ''u1'' 0 175 30 Male Moderate Maintain [] []
     \<noteq> Inl (InvalidInputError ''weight'')
   \<and> \<not> isl (createNutritionProfile_result ''u1'' 0 175 30 Male Moderate Maintain [] [])
   \<and> bmr (projr (createNutritionProfile_result ''u1'' 0 175 30 Male Moderate Maintain [] [])) = 949
   \<and> tdee (projr (createNutritionProfile_result ''u1'' 0 175 30 Male Moderate Maintain [] [])) = 1471"
  by (simp add: createNutritionProfile_result_def createNutritionProfile_def calculateTDEE_def
      mifflin_bmr_def Math_round_def Let_def)

text \<open>
  C1, amended: \<open>createNutritionProfile\<close> validates nothing and has no error path. For
  every input, a non-positive weight, height or age included, it returns a profile, whose
  BMR and TDEE are the formula's values at that input.
\<close>

theorem createNutritionProfile_always_returns:
  "\<not> isl (createNutritionProfile_result uid w h a g lvl gl dr al)
   \<and> userId (projr (createNutritionProfile_result uid w h a g lvl gl dr al)) = uid
   \<and> bmr (projr (createNutritionProfile_result uid w h a g lvl gl dr al))
       = Math_round (mifflin_bmr w h a g)
   \<and> tdee (projr (createNutritionProfile_result uid w h a g lvl gl dr al))
       = Math_round (mifflin_bmr w h a g * activityMultipliers lvl)"
  by (simp add: createNutritionProfile_result_def createNutritionProfile_def calculateTDEE_def
      Let_def)

section \<open>The floor of 1200 kcal\<close>

text \<open>
  C2, as the specification has it: the target is at least 1200 for every goal. For a
  woman of 40 kg, 150 cm and 70 years with light activity and the goal maintain, the
  target is the TDEE, 1136.
\<close>

theorem target_calories_below_floor:
  "target_calories (createNutritionProfile ''u1'' 40 150 70 Female Light Maintain [] []) = 1136
   \<and> \<not> 1200 \<le> target_calories (createNutritionProfile ''u1'' 40 150 70 Female Light Maintain [] [])"
  by (simp add: createNutritionProfile_def calculateTDEE_def mifflin_bmr_def Math_round_def
      Let_def)

text \<open>
  C2, amended: the floor belongs to the goal lose only. For lose the target is at least
  1200 however small the TDEE; for maintain it is the TDEE and for gain the TDEE plus
  400, with no floor.
\<close>

theorem target_calories_floor_lose_only:
  "1200 \<le> target_calories (createNutritionProfile uid w h a g lvl Lose dr al)
   \<and> target_calories (createNutritionProfile uid w h a g lvl Maintain dr al)
       = tdee (createNutritionProfile uid w h a g lvl Maintain dr al)
   \<and> target_calories (createNutritionProfile uid w h a g lvl Gain dr al)
       = tdee (createNutritionProfile uid w h a g lvl Gain dr al) + 400"
  by (simp add: createNutritionProfile_def Let_def)

section \<open>The energy of the macro split\<close>

lemma Math_round_near: "\<bar>Math_round x - x\<bar> \<le> 1 / 2"
  unfolding Math_round_def by linarith

lemma roundTiesToEven_near: "\<bar>of_int (roundTiesToEven y) - y\<bar> \<le> 1 / 2"
  unfolding roundTiesToEven_def Let_def by (auto; linarith)

text \<open>The magnitude of a value other than 0 lies in the binade of its exponent.\<close>

lemma binade_below: "x \<noteq> 0 \<Longrightarrow> 2 powi binade x \<le> \<bar>x\<bar>"
proof (induction x rule: binade.induct)
  case (1 x)
  consider (big) "2 \<le> \<bar>x\<bar>" | (small) "\<bar>x\<bar> < 1" | (unit) "1 \<le> \<bar>x\<bar>" "\<bar>x\<bar> < 2"
    by linarith
  then show ?case
  proof cases
    case big
    with "1.prems" have eq: "binade x = binade (x / 2) + 1"
      by (subst binade.simps) simp
    from "1.IH"(1) [OF "1.prems" big] "1.prems" have "2 powi binade (x / 2) \<le> \<bar>x / 2\<bar>"
      by simp
    then show ?thesis unfolding eq by (simp add: power_int_add)
  next
    case small
    with "1.prems" have eq: "binade x = binade (x * 2) - 1"
      by (subst binade.simps) simp
    from small have nb: "\<not> 2 \<le> \<bar>x\<bar>" by simp
    from "1.IH"(2) [OF "1.prems" nb small] "1.prems"
    have "2 powi binade (x * 2) \<le> \<bar>x * 2\<bar>"
      by simp
    then show ?thesis unfolding eq by (simp add: power_int_diff abs_mult)
  next
    case unit
    with "1.prems" have "binade x = 0"
      by (subst binade.simps) simp
    with unit show ?thesis by simp
  qed
qed

lemma binade_above: "x \<noteq> 0 \<Longrightarrow> \<bar>x\<bar> < 2 powi (binade x + 1)"
proof (induction x rule: binade.induct)
  case (1 x)
  consider (big) "2 \<le> \<bar>x\<bar>" | (small) "\<bar>x\<bar> < 1" | (unit) "1 \<le> \<bar>x\<bar>" "\<bar>x\<bar> < 2"
    by linarith
  then show ?case
  proof cases
    case big
    with "1.prems" have eq: "binade x = binade (x / 2) + 1"
      by (subst binade.simps) simp
    from "1.IH"(1) [OF "1.prems" big] "1.prems"
    have "\<bar>x / 2\<bar> < 2 powi (binade (x / 2) + 1)"
      by simp
    then show ?thesis unfolding eq by (simp add: power_int_add)
  next
    case small
    with "1.prems" have eq: "binade x = binade (x * 2) - 1"
      by (subst binade.simps) simp
    from small have nb: "\<not> 2 \<le> \<bar>x\<bar>" by simp
    from "1.IH"(2) [OF "1.prems" nb small] "1.prems"
    have "\<bar>x * 2\<bar> < 2 powi (binade (x * 2) + 1)"
      by simp
    then show ?thesis unfolding eq by (simp add: power_int_add abs_mult)
  next
    case unit
    with "1.prems" have "binade x = 0"
      by (subst binade.simps) simp
    with unit show ?thesis by simp
  qed
qed

text \<open>The rounding to a double moves a value by at most half a unit in the last place.\<close>

lemma to_double_near: "\<bar>to_double x - x\<bar> \<le> \<bar>x\<bar> / 2 ^ 53 + 1 / 2 ^ 53"
proof (cases "x = 0")
  case True
  then show ?thesis by (simp add: to_double_def roundTiesToEven_def Let_def)
next
  case False
  define e where "e = max (binade x - 52) (- 1074)"
  define s :: real where "s = 2 powi e"
  have spos: "0 < s" by (simp add: s_def)
  have td: "to_double x = of_int (roundTiesToEven (x / s)) * s"
    by (simp add: to_double_def e_def s_def Let_def)
  have "to_double x - x = (of_int (roundTiesToEven (x / s)) - x / s) * s"
    using spos by (simp add: td algebra_simps)
  then have "\<bar>to_double x - x\<bar> = \<bar>of_int (roundTiesToEven (x / s)) - x / s\<bar> * s"
    using spos by (simp add: abs_mult)
  also have "\<dots> \<le> (1 / 2) * s"
    using roundTiesToEven_near [of "x / s"] spos by (intro mult_right_mono) simp_all
  finally have half: "\<bar>to_double x - x\<bar> \<le> s / 2" by simp
  have "s \<le> \<bar>x\<bar> / 2 ^ 52 + 1 / 2 ^ 52"
  proof (cases "- 1074 \<le> binade x - 52")
    case True
    then have "e = binade x - 52" by (simp add: e_def)
    then have "s = 2 powi binade x / 2 ^ 52"
      by (simp add: s_def power_int_diff)
    also have "\<dots> \<le> \<bar>x\<bar> / 2 ^ 52"
      using binade_below [OF False] by (simp add: divide_right_mono)
    finally show ?thesis by simp
  next
    case False
    then have "e = - 1074" by (simp add: e_def)
    then have "s = 2 powi (- 1074)" by (simp add: s_def)
    also have "\<dots> \<le> (1::real) / 2 ^ 52" by (simp add: power_int_minus field_simps)
    finally have "s \<le> 1 / 2 ^ 52" .
    moreover have "0 \<le> \<bar>x\<bar> / 2 ^ 52" by simp
    ultimately show ?thesis by linarith
  qed
  with half show ?thesis by simp
qed

lemma to_double_near_bounded:
  assumes "\<bar>x\<bar> \<le> b"
  shows "\<bar>to_double x - x\<bar> \<le> (b + 1) / 2 ^ 53"
proof -
  have "\<bar>x\<bar> / 2 ^ 53 \<le> b / 2 ^ 53"
    using assms by (simp add: divide_right_mono)
  with to_double_near [of x] show ?thesis by (simp add: add_divide_distrib)
qed

text \<open>
  For a calorie value of magnitude up to \<open>10 ^ 12\<close>, a share \<open>p\<close> of it over \<open>k\<close> kcal
  per gram, computed in doubles as the source does, is within 0.0005 of the exact figure.
\<close>

lemma scaled_quotient_near:
  assumes p: "0 \<le> p" "p \<le> 1 / 2" and k: "1 \<le> k" and c: "\<bar>c\<bar> \<le> 10 ^ 12"
  shows "\<bar>to_double (to_double (c * to_double p) / k) - c * p / k\<bar> \<le> 1 / 2000"
proof -
  define p' where "p' = to_double p"
  define a where "a = c * p'"
  define a' where "a' = to_double a"
  define b where "b = a' / k"
  from c have cb: "\<bar>c\<bar> \<le> 1000000000000" by simp
  have "\<bar>p\<bar> \<le> 1" using p by simp
  then have e1: "\<bar>p' - p\<bar> \<le> 2 / 2 ^ 53"
    unfolding p'_def using to_double_near_bounded [of p 1] by simp
  have "\<bar>a - c * p\<bar> = \<bar>c\<bar> * \<bar>p' - p\<bar>"
    by (simp add: a_def abs_mult [symmetric] algebra_simps)
  also have "\<dots> \<le> 1000000000000 * (2 / 2 ^ 53)"
    using cb e1 by (intro mult_mono) simp_all
  also have "\<dots> \<le> 1 / 4500" by simp
  finally have e2: "\<bar>a - c * p\<bar> \<le> 1 / 4500" .
  have "\<bar>c * p\<bar> = \<bar>c\<bar> * p" using p by (simp add: abs_mult)
  also have "\<dots> \<le> 1000000000000 * (1 / 2)"
    using cb p by (intro mult_mono) simp_all
  finally have cp: "\<bar>c * p\<bar> \<le> 500000000000" by simp
  from e2 cp have ab: "\<bar>a\<bar> \<le> 1000000000000" by linarith
  have "\<bar>a' - a\<bar> \<le> (1000000000000 + 1) / 2 ^ 53"
    unfolding a'_def using ab by (rule to_double_near_bounded)
  also have "\<dots> \<le> 1 / 9000" by simp
  finally have e3: "\<bar>a' - a\<bar> \<le> 1 / 9000" .
  from e2 e3 have e4: "\<bar>a' - c * p\<bar> \<le> 1 / 3000" by linarith
  from e3 ab have a'b: "\<bar>a'\<bar> \<le> 1000000000001" by linarith
  have kpos: "0 < k" using k by simp
  have "\<bar>b - c * p / k\<bar> = \<bar>a' - c * p\<bar> / k"
    using kpos by (simp add: b_def diff_divide_distrib [symmetric])
  also have "\<dots> \<le> \<bar>a' - c * p\<bar> / 1"
    using k by (intro divide_left_mono) simp_all
  finally have e5: "\<bar>b - c * p / k\<bar> \<le> 1 / 3000"
    using e4 by simp
  have "\<bar>b\<bar> = \<bar>a'\<bar> / k" using kpos by (simp add: b_def)
  also have "\<dots> \<le> \<bar>a'\<bar> / 1"
    using k by (intro divide_left_mono) simp_all
  finally have "\<bar>b\<bar> \<le> 1000000000001" using a'b by simp
  then have "\<bar>to_double b - b\<bar> \<le> (1000000000001 + 1) / 2 ^ 53"
    by (rule to_double_near_bounded)
  also have "\<dots> \<le> 1 / 9000" by simp
  finally have e6: "\<bar>to_double b - b\<bar> \<le> 1 / 9000" .
  from e5 e6 have "\<bar>to_double b - c * p / k\<bar> \<le> 1 / 2000" by linarith
  then show ?thesis by (simp add: b_def a'_def a_def p'_def)
qed

lemma gram_figure_near:
  assumes "0 \<le> p" "p \<le> 1 / 2" "1 \<le> k" "\<bar>c\<bar> \<le> 10 ^ 12"
  shows "\<bar>Math_round (to_double (to_double (c * to_double p) / k)) - c * p / k\<bar>
           \<le> 1 / 2 + 1 / 2000"
  using scaled_quotient_near [OF assms]
    Math_round_near [of "to_double (to_double (c * to_double p) / k)"]
  by linarith

lemma macro_kcal_near:
  assumes c: "\<bar>cal\<bar> \<le> 10 ^ 12"
  shows "\<bar>macro_kcal (calculateMacros cal gl) - cal\<bar> < 9"
proof -
  obtain pp fp cp :: real where pc: "macroPercents gl = (to_double pp, to_double fp, to_double cp)"
    and total: "pp + fp + cp = 1"
    and range: "0 \<le> pp" "pp \<le> 1 / 2" "0 \<le> fp" "fp \<le> 1 / 2" "0 \<le> cp" "cp \<le> 1 / 2"
    by (cases gl) auto
  define P where "P = Math_round (to_double (to_double (cal * to_double pp) / 4))"
  define C where "C = Math_round (to_double (to_double (cal * to_double cp) / 4))"
  define F where "F = Math_round (to_double (to_double (cal * to_double fp) / 9))"
  have mk: "macro_kcal (calculateMacros cal gl) = 4 * P + 4 * C + 9 * F"
    by (simp add: macro_kcal_def calculateMacros_def pc P_def C_def F_def)
  have parts: "cal = 4 * (cal * pp / 4) + 4 * (cal * cp / 4) + 9 * (cal * fp / 9)"
  proof -
    have "4 * (cal * pp / 4) + 4 * (cal * cp / 4) + 9 * (cal * fp / 9) = cal * (pp + fp + cp)"
      by (simp add: algebra_simps)
    then show ?thesis using total by simp
  qed
  have "\<bar>P - cal * pp / 4\<bar> \<le> 1 / 2 + 1 / 2000"
    unfolding P_def using range c by (intro gram_figure_near) simp_all
  moreover have "\<bar>C - cal * cp / 4\<bar> \<le> 1 / 2 + 1 / 2000"
    unfolding C_def using range c by (intro gram_figure_near) simp_all
  moreover have "\<bar>F - cal * fp / 9\<bar> \<le> 1 / 2 + 1 / 2000"
    unfolding F_def using range c by (intro gram_figure_near) simp_all
  ultimately have "\<bar>(4 * P + 4 * C + 9 * F)
      - (4 * (cal * pp / 4) + 4 * (cal * cp / 4) + 9 * (cal * fp / 9))\<bar> < 9"
    by linarith
  then show ?thesis using mk parts by simp
qed

lemma macro_kcal_integral: "macro_kcal (calculateMacros cal gl) \<in> \<int>"
  by (cases gl) (simp_all add: macro_kcal_def calculateMacros_def Math_round_def)

lemma calculateTargetCalories_integral: "calculateTargetCalories (Math_round x) gl \<in> \<int>"
  by (cases gl) (auto simp: Math_round_def max_def)

lemma integral_below_nine: "d \<in> \<int> \<Longrightarrow> \<bar>d :: real\<bar> < 9 \<Longrightarrow> \<bar>d\<bar> \<le> 8"
proof -
  assume "d \<in> \<int>" and b: "\<bar>d\<bar> < 9"
  then obtain n :: int where d: "d = of_int n" by (auto elim: Ints_cases)
  from b have "\<bar>real_of_int n\<bar> < 9" unfolding d by linarith
  then have "\<bar>n\<bar> < 9" by linarith
  then have "\<bar>n\<bar> \<le> 8" by simp
  then show "\<bar>d\<bar> \<le> 8" unfolding d by linarith
qed

lemma to_double_percents:
  "to_double (35 / 100) = 6305039478318694 / 2 ^ 54"
  "to_double (30 / 100) = 5404319552844595 / 2 ^ 54"
  "to_double (40 / 100) = 7205759403792794 / 2 ^ 54"
  "to_double (25 / 100) = 25 / 100"
  "to_double (50 / 100) = 50 / 100"
  by (simp_all add: to_double_def binade.simps roundTiesToEven_def Let_def)

text \<open>
  The doubles at work: at 2600 kcal with the goal lose, 2600 * 0.35 / 4 is
  227.49999999999997 in doubles, and the protein and carbs figures are 227, where the
  exact quotient 227.5 would round to 228.
\<close>

lemma calculateMacros_2600_lose:
  "calculateMacros 2600 Lose = \<lparr> protein = 227, carbs = 227, fats = 87, calories = 2600 \<rparr>"
proof -
  have p: "Math_round (to_double (to_double (2600 * to_double (35 / 100)) / 4)) = 227"
    by (simp add: Math_round_def to_double_def binade.simps roundTiesToEven_def Let_def)
  have f: "Math_round (to_double (to_double (2600 * to_double (30 / 100)) / 9)) = 87"
    by (simp add: Math_round_def to_double_def binade.simps roundTiesToEven_def Let_def)
  show ?thesis
    by (simp only: calculateMacros_def macroPercents.simps prod.case p f)
qed

text \<open>
  C4, as the specification has it: the energy of the macro goals is within 5 kcal of the
  target. For a woman of 60 kg, 161 cm and 31 years with light activity and the goal lose
  the target is 1274 and the macro goals (111 g, 111 g, 42 g) carry 1266 kcal.
\<close>

theorem macro_energy_off_by_eight:
  "target_calories (createNutritionProfile ''u1'' 60 161 31 Female Light Lose [] []) = 1274
   \<and> macro_kcal (macro_goals (createNutritionProfile ''u1'' 60 161 31 Female Light Lose [] []))
       = 1266
   \<and> \<not> \<bar>macro_kcal (macro_goals (createNutritionProfile ''u1'' 60 161 31 Female Light Lose [] []))
          - target_calories (createNutritionProfile ''u1'' 60 161 31 Female Light Lose [] [])\<bar> \<le> 5"
proof -
  have t: "target_calories (createNutritionProfile ''u1'' 60 161 31 Female Light Lose [] []) = 1274"
    by (simp add: createNutritionProfile_def calculateTDEE_def mifflin_bmr_def Math_round_def
        Let_def)
  have m: "macro_goals (createNutritionProfile ''u1'' 60 161 31 Female Light Lose [] [])
      = calculateMacros 1274 Lose"
    using t by (simp add: createNutritionProfile_def Let_def)
  have p: "Math_round (to_double (to_double (1274 * to_double (35 / 100)) / 4)) = 111"
    by (simp add: Math_round_def to_double_def binade.simps roundTiesToEven_def Let_def)
  have f: "Math_round (to_double (to_double (1274 * to_double (30 / 100)) / 9)) = 42"
    by (simp add: Math_round_def to_double_def binade.simps roundTiesToEven_def Let_def)
  have g: "calculateMacros 1274 Lose
      = \<lparr> protein = 111, carbs = 111, fats = 42, calories = 1274 \<rparr>"
    by (simp only: calculateMacros_def macroPercents.simps prod.case p f)
  show ?thesis unfolding m t g by (simp add: macro_kcal_def)
qed

text \<open>
  C4, amended: for every goal, every activity level and every other input, the energy of
  the profile's macro goals, protein times 4 plus carbs times 4 plus fats times 9, is
  within 8 kcal of the target calories, for every target of magnitude up to \<open>10 ^ 12\<close>
  kcal; the same holds of \<open>calculateMacros\<close> at every integer calorie value of that
  range.
\<close>

theorem macro_energy_within_eight:
  "(\<bar>target_calories (createNutritionProfile uid w h a g lvl gl dr al)\<bar> \<le> 10 ^ 12 \<longrightarrow>
      \<bar>macro_kcal (macro_goals (createNutritionProfile uid w h a g lvl gl dr al))
         - target_calories (createNutritionProfile uid w h a g lvl gl dr al)\<bar> \<le> 8)
   \<and> (\<bar>real_of_int n\<bar> \<le> 10 ^ 12 \<longrightarrow>
      \<bar>macro_kcal (calculateMacros (of_int n) gl) - of_int n\<bar> \<le> 8)"
proof -
  have ints: "\<bar>macro_kcal (calculateMacros t gl) - t\<bar> \<le> 8"
    if "t \<in> \<int>" "\<bar>t\<bar> \<le> 10 ^ 12" for t
  proof -
    from macro_kcal_integral that(1) have "macro_kcal (calculateMacros t gl) - t \<in> \<int>"
      by (rule Ints_diff)
    then show ?thesis using macro_kcal_near [OF that(2)] by (rule integral_below_nine)
  qed
  let ?t = "calculateTargetCalories (calculateTDEE w h a g lvl) gl"
  have "?t \<in> \<int>"
    unfolding calculateTDEE_def by (rule calculateTargetCalories_integral)
  then have "\<bar>?t\<bar> \<le> 10 ^ 12 \<longrightarrow> \<bar>macro_kcal (calculateMacros ?t gl) - ?t\<bar> \<le> 8"
    using ints by blast
  then have first: "\<bar>target_calories (createNutritionProfile uid w h a g lvl gl dr al)\<bar> \<le> 10 ^ 12 \<longrightarrow>
      \<bar>macro_kcal (macro_goals (createNutritionProfile uid w h a g lvl gl dr al))
         - target_calories (createNutritionProfile uid w h a g lvl gl dr al)\<bar> \<le> 8"
    by (simp add: createNutritionProfile_def Let_def)
  have "\<bar>real_of_int n\<bar> \<le> 10 ^ 12 \<longrightarrow>
      \<bar>macro_kcal (calculateMacros (of_int n) gl) - of_int n\<bar> \<le> 8"
    using ints [of "of_int n"] by simp
  with first show ?thesis by blast
qed

text \<open>
  A man of 84 kg, 200 cm and 19 years with moderate activity and the goal lose: the
  target is 2600 and the macro goals (227 g, 227 g, 87 g) carry 2599 kcal.
\<close>

theorem macro_energy_within_eight_witness:
  "\<bar>target_calories (createNutritionProfile ''u1'' 84 200 19 Male Moderate Lose [] [])\<bar> \<le> 10 ^ 12
   \<and> target_calories (createNutritionProfile ''u1'' 84 200 19 Male Moderate Lose [] []) = 2600
   \<and> \<bar>macro_kcal (macro_goals (createNutritionProfile ''u1'' 84 200 19 Male Moderate Lose [] []))
         - target_calories (createNutritionProfile ''u1'' 84 200 19 Male Moderate Lose [] [])\<bar> \<le> 8
   \<and> \<bar>real_of_int 2600\<bar> \<le> 10 ^ 12
   \<and> \<bar>macro_kcal (calculateMacros (of_int 2600) Lose) - of_int 2600\<bar> \<le> 8"
proof -
  have t: "target_calories (createNutritionProfile ''u1'' 84 200 19 Male Moderate Lose [] []) = 2600"
    by (simp add: createNutritionProfile_def calculateTDEE_def mifflin_bmr_def Math_round_def
        Let_def)
  then have b: "\<bar>target_calories (createNutritionProfile ''u1'' 84 200 19 Male Moderate Lose [] [])\<bar>
      \<le> 10 ^ 12"
    by simp
  have r: "\<bar>real_of_int 2600\<bar> \<le> 10 ^ 12" by simp
  show ?thesis
    using t b r
      macro_energy_within_eight [of "''u1''" 84 200 19 Male Moderate Lose "[]" "[]" 2600]
    by blast
qed

text \<open>
  C10. The calories of the macro goals returned by \<open>calculateMacros\<close> are its calorie
  argument, unchanged, for every value and goal; so in every profile built by
  \<open>createNutritionProfile\<close> the calories of the macro goals equal the target calories
  exactly.
\<close>

theorem macro_goals_calories_pass_through:
  "calories (calculateMacros cal gl) = cal
   \<and> calories (macro_goals (createNutritionProfile uid w h a g lvl gl dr al))
       = target_calories (createNutritionProfile uid w h a g lvl gl dr al)"
  by (cases gl) (simp_all add: createNutritionProfile_def calculateMacros_def Let_def)

section \<open>The validation rules\<close>

lemma warning_texts_distinct:
  "calories_too_low \<noteq> protein_too_low" "calories_too_low \<noteq> fat_too_low"
  "protein_too_low \<noteq> fat_too_low"
  by (simp_all add: calories_too_low_def protein_too_low_def fat_too_low_def)

lemma js_percent_less: "js_less (js_times_pos v 100) (c * 100) = js_less v c"
  by (cases v) simp_all

lemma js_percent_15:
  "js_less (js_times_pos (js_div x y) 100) 15 = js_less (js_div x y) (15 / 100)"
  using js_percent_less [of "js_div x y" "15 / 100"] by simp

lemma js_percent_20:
  "js_less (js_times_pos (js_div x y) 100) 20 = js_less (js_div x y) (20 / 100)"
  using js_percent_less [of "js_div x y" "20 / 100"] by simp

lemma js_div_finite: "y \<noteq> 0 \<Longrightarrow> js_less (js_div x y) c = (x / y < c)"
  by (simp add: js_div_def)

text \<open>Each rule contributes its own warning, or nothing, whatever the other two do.\<close>

lemma warnings_form:
  "warnings (validateNutritionGoals p) =
     (if target_calories p < 1200 then [calories_too_low] else [])
     @ (if js_less (js_div (protein (macro_goals p) * 4) (target_calories p)) (15 / 100)
        then [protein_too_low] else [])
     @ (if js_less (js_div (fats (macro_goals p) * 9) (target_calories p)) (20 / 100)
        then [fat_too_low] else [])"
  by (simp add: validateNutritionGoals_def Let_def js_percent_15 js_percent_20)

text \<open>
  C8. \<open>validateNutritionGoals\<close> is a total function (it returns for every profile) and
  its three rules are independent: the calories warning is in the list exactly when the
  target is below 1200, the protein warning exactly when protein times 4 over the target
  is below 0.15, the fat warning exactly when fats times 9 over the target is below 0.20,
  and the list is empty exactly when no rule fires. The quotient is JavaScript's; for a
  target other than 0 it is the quotient of the reals.
\<close>

theorem validateNutritionGoals_rules:
  "(calories_too_low \<in> set (warnings (validateNutritionGoals p)) \<longleftrightarrow> target_calories p < 1200)
   \<and> (protein_too_low \<in> set (warnings (validateNutritionGoals p)) \<longleftrightarrow>
        js_less (js_div (protein (macro_goals p) * 4) (target_calories p)) (15 / 100))
   \<and> (fat_too_low \<in> set (warnings (validateNutritionGoals p)) \<longleftrightarrow>
        js_less (js_div (fats (macro_goals p) * 9) (target_calories p)) (20 / 100))
   \<and> (target_calories p \<noteq> 0 \<longrightarrow>
        (protein_too_low \<in> set (warnings (validateNutritionGoals p)) \<longleftrightarrow>
           protein (macro_goals p) * 4 / target_calories p < 15 / 100)
        \<and> (fat_too_low \<in> set (warnings (validateNutritionGoals p)) \<longleftrightarrow>
           fats (macro_goals p) * 9 / target_calories p < 20 / 100))
   \<and> (warnings (validateNutritionGoals p) = [] \<longleftrightarrow>
        \<not> target_calories p < 1200
        \<and> \<not> js_less (js_div (protein (macro_goals p) * 4) (target_calories p)) (15 / 100)
        \<and> \<not> js_less (js_div (fats (macro_goals p) * 9) (target_calories p)) (20 / 100))
   \<and> valid (validateNutritionGoals p) = (warnings (validateNutritionGoals p) = [])"
proof -
  have a: "calories_too_low \<in> set (warnings (validateNutritionGoals p))
      \<longleftrightarrow> target_calories p < 1200"
    using warning_texts_distinct by (simp add: warnings_form)
  have b: "protein_too_low \<in> set (warnings (validateNutritionGoals p)) \<longleftrightarrow>
        js_less (js_div (protein (macro_goals p) * 4) (target_calories p)) (15 / 100)"
    using warning_texts_distinct by (auto simp: warnings_form)
  have c: "fat_too_low \<in> set (warnings (validateNutritionGoals p)) \<longleftrightarrow>
        js_less (js_div (fats (macro_goals p) * 9) (target_calories p)) (20 / 100)"
    using warning_texts_distinct by (auto simp: warnings_form)
  have d: "warnings (validateNutritionGoals p) = [] \<longleftrightarrow>
        \<not> target_calories p < 1200
        \<and> \<not> js_less (js_div (protein (macro_goals p) * 4) (target_calories p)) (15 / 100)
        \<and> \<not> js_less (js_div (fats (macro_goals p) * 9) (target_calories p)) (20 / 100)"
    by (simp add: warnings_form)
  have e: "valid (validateNutritionGoals p) = (warnings (validateNutritionGoals p) = [])"
    by (simp add: validateNutritionGoals_def Let_def)
  show ?thesis using a b c d e by (simp add: js_div_finite)
qed

text \<open>
  The two profiles of the specification: target 2500 with 200 g of protein and 80 g of
  fat has no warning; target 1100 has the calories warning.
\<close>

theorem validateNutritionGoals_rules_witness:
  "target_calories (profile_with 2500 200 275 80) \<noteq> 0
   \<and> warnings (validateNutritionGoals (profile_with 2500 200 275 80)) = []
   \<and> calories_too_low \<in> set (warnings (validateNutritionGoals (profile_with 1100 83 110 37)))"
proof -
  have nz: "target_calories (profile_with 2500 200 275 80) \<noteq> 0"
    by (simp add: profile_with_def)
  have "warnings (validateNutritionGoals (profile_with 2500 200 275 80)) = []"
    using validateNutritionGoals_rules [of "profile_with 2500 200 275 80"]
    by (simp add: profile_with_def js_div_def)
  moreover have
    "calories_too_low \<in> set (warnings (validateNutritionGoals (profile_with 1100 83 110 37)))"
    using validateNutritionGoals_rules [of "profile_with 1100 83 110 37"]
    by (simp add: profile_with_def)
  ultimately show ?thesis using nz by simp
qed

section \<open>The most recent weight\<close>

lemma sort_key_head:
  assumes "xs \<noteq> []"
  obtains y ys where "sort_key f xs = y # ys" "y \<in> set xs" "\<forall>z \<in> set xs. f y \<le> f z"
proof -
  have "length (sort_key f xs) = length xs" by simp
  with assms have "sort_key f xs \<noteq> []" by (metis length_0_conv)
  then obtain y ys where eq: "sort_key f xs = y # ys" by (cases "sort_key f xs") auto
  have "set (y # ys) = set xs" unfolding eq [symmetric] by simp
  moreover have "sorted (map f (y # ys))" unfolding eq [symmetric] by (rule sorted_sort_key)
  ultimately have "y \<in> set xs" "\<forall>z \<in> set xs. f y \<le> f z" by auto
  with eq show ?thesis by (rule that)
qed

lemma getLatestProgressMetrics_empty: "getLatestProgressMetrics [] = None"
  by (simp add: getLatestProgressMetrics_def)

lemma getLatestProgressMetrics_latest:
  assumes "docs \<noteq> []"
  shows "\<exists>m \<in> set docs. (\<forall>x \<in> set docs. metric_date x \<le> metric_date m)
           \<and> getLatestProgressMetrics docs = Some m"
proof -
  obtain y ys where eq: "sort_key (\<lambda>m. - metric_date m) docs = y # ys"
    and y: "y \<in> set docs" and low: "\<forall>z \<in> set docs. - metric_date y \<le> - metric_date z"
    using assms by (rule sort_key_head)
  have "getLatestProgressMetrics docs = Some y"
    by (simp add: getLatestProgressMetrics_def eq)
  with y low show ?thesis by auto
qed

text \<open>
  C3, as the specification has it: the weight of the latest sample among those that have
  a weight. With a sample of day 2 that has no weight and a sample of day 1 of 80 kg, the
  statistics report no weight, where the description gives 80.
\<close>

theorem recentWeight_latest_sample_without_weight:
  "recentWeight (getUserDashboardStats (fixed_zone 0) []
      [sample_at 172800000 None, sample_at 86400000 (Some 80)] 200000000 200000000) = None
   \<and> most_recent_weight_spec [sample_at 172800000 None, sample_at 86400000 (Some 80)] = Some 80"
  by (simp add: getUserDashboardStats_def recentWeight_of_def getLatestProgressMetrics_def
      most_recent_weight_spec_def sample_at_def Let_def)

text \<open>
  C3, amended: the reported weight is the weight field of a sample with the latest date
  among all the samples, whether that sample has a weight or not; so it is absent when
  there is no sample and when the latest sample has no weight.
\<close>

theorem recentWeight_of_latest_sample:
  "(samples = [] \<longrightarrow>
      recentWeight (getUserDashboardStats tz sessionDocs samples now clock) = None)
   \<and> (samples \<noteq> [] \<longrightarrow>
        (\<exists>m \<in> set samples. (\<forall>x \<in> set samples. metric_date x \<le> metric_date m)
           \<and> recentWeight (getUserDashboardStats tz sessionDocs samples now clock) = weight m))"
proof (cases "samples = []")
  case True
  then show ?thesis
    by (simp add: getUserDashboardStats_def recentWeight_of_def getLatestProgressMetrics_empty
        Let_def)
next
  case False
  from getLatestProgressMetrics_latest [OF False] obtain m where
    "m \<in> set samples" "\<forall>x \<in> set samples. metric_date x \<le> metric_date m"
    "getLatestProgressMetrics samples = Some m" by blast
  then show ?thesis using False
    by (auto simp: getUserDashboardStats_def recentWeight_of_def Let_def)
qed

theorem recentWeight_of_latest_sample_witness:
  "[sample_at 86400000 (Some 80), sample_at 172800000 (Some 79)] \<noteq> []
   \<and> (\<exists>m \<in> set [sample_at 86400000 (Some 80), sample_at 172800000 (Some 79)].
        (\<forall>x \<in> set [sample_at 86400000 (Some 80), sample_at 172800000 (Some 79)].
            metric_date x \<le> metric_date m)
        \<and> recentWeight (getUserDashboardStats (fixed_zone 0) []
             [sample_at 86400000 (Some 80), sample_at 172800000 (Some 79)] 200000000 200000000)
           = weight m)
   \<and> recentWeight (getUserDashboardStats (fixed_zone 0) [] [] 200000000 200000000) = None"
proof -
  have ne: "[sample_at 86400000 (Some 80), sample_at 172800000 (Some 79)] \<noteq> []" by simp
  show ?thesis
    using ne
      recentWeight_of_latest_sample
        [of "[sample_at 86400000 (Some 80), sample_at 172800000 (Some 79)]" "fixed_zone 0" "[]"
          200000000 200000000]
      recentWeight_of_latest_sample [of "[]" "fixed_zone 0" "[]" 200000000 200000000]
    by simp
qed

section \<open>The weekly goal progress\<close>

lemma thisWeekSessions_count:
  "thisWeekSessions_of (recentSessionsQuery docs (now - 30 * 24 * 60 * 60 * 1000))
      (now - 7 * 24 * 60 * 60 * 1000)
    = sessions_since docs (now - 7 * msPerDay)"
proof -
  let ?P = "\<lambda>s. now - 7 * 24 * 60 * 60 * 1000 \<le> date s"
  let ?Q = "\<lambda>s. now - 30 * 24 * 60 * 60 * 1000 \<le> date s"
  have "filter ?P (sort_key (\<lambda>s. - date s) (filter ?Q docs))
      = sort_key (\<lambda>s. - date s) (filter ?P (filter ?Q docs))"
    by (rule filter_sort)
  moreover have "filter ?P (filter ?Q docs) = filter ?P docs"
  proof -
    have "filter ?P (filter ?Q docs) = filter (\<lambda>s. ?Q s \<and> ?P s) docs" by simp
    also have "\<dots> = filter ?P docs" by (rule filter_cong) auto
    finally show ?thesis .
  qed
  ultimately show ?thesis
    by (simp add: thisWeekSessions_of_def recentSessionsQuery_def sessions_since_def msPerDay_def)
qed

lemma weeklyGoalProgress_value:
  "weeklyGoalProgress (getUserDashboardStats tz sessionDocs metricDocs now clock)
     = min (real (sessions_since sessionDocs (now - 7 * msPerDay)) / 4 * 100) 100"
proof -
  let ?R = "recentSessionsQuery sessionDocs (now - 30 * 24 * 60 * 60 * 1000)"
  have "weeklyGoalProgress (getUserDashboardStats tz sessionDocs metricDocs now clock)
      = weeklyGoalProgress_of ?R now"
    by (simp add: getUserDashboardStats_def Let_def)
  also have "\<dots>
      = min (real (thisWeekSessions_of ?R (now - 7 * 24 * 60 * 60 * 1000)) / 4 * 100) 100"
    by (simp add: weeklyGoalProgress_of_def Let_def)
  finally show ?thesis by (simp only: thisWeekSessions_count)
qed

text \<open>
  C7, as the specification has it: the count is of the sessions in the trailing seven
  days. A single session dated one day after the reference time is outside that window,
  so the description gives 0; the code counts it and reports 25.
\<close>

theorem weeklyGoalProgress_counts_later_session:
  "weeklyGoalProgress (getUserDashboardStats (fixed_zone 0) [session_at (1700000000000 + msPerDay)] []
      1700000000000 1700000000000) = 25
   \<and> weekly_goal_progress_spec [session_at (1700000000000 + msPerDay)] 1700000000000 = 0"
  by (simp add: getUserDashboardStats_def recentSessionsQuery_def weeklyGoalProgress_of_def
      thisWeekSessions_of_def weekly_goal_progress_spec_def session_at_def msPerDay_def Let_def)

text \<open>
  C7, amended: the weekly goal progress is the number of sessions dated at or after
  seven days before the reference time (a session dated after the reference time counts
  too), divided by the target of 4, times 100, and capped at 100; it lies between 0 and
  100. Four such sessions give 100, six give 100, none gives 0.
\<close>

theorem weeklyGoalProgress_since_week_ago:
  "weeklyGoalProgress (getUserDashboardStats tz sessionDocs metricDocs now clock)
     = min (real (sessions_since sessionDocs (now - 7 * msPerDay)) / 4 * 100) 100
   \<and> 0 \<le> weeklyGoalProgress (getUserDashboardStats tz sessionDocs metricDocs now clock)
   \<and> weeklyGoalProgress (getUserDashboardStats tz sessionDocs metricDocs now clock) \<le> 100
   \<and> (sessions_since sessionDocs (now - 7 * msPerDay) = 4 \<longrightarrow>
        weeklyGoalProgress (getUserDashboardStats tz sessionDocs metricDocs now clock) = 100)
   \<and> (sessions_since sessionDocs (now - 7 * msPerDay) = 6 \<longrightarrow>
        weeklyGoalProgress (getUserDashboardStats tz sessionDocs metricDocs now clock) = 100)
   \<and> (sessions_since sessionDocs (now - 7 * msPerDay) = 0 \<longrightarrow>
        weeklyGoalProgress (getUserDashboardStats tz sessionDocs metricDocs now clock) = 0)"
  unfolding weeklyGoalProgress_value by simp

theorem weeklyGoalProgress_since_week_ago_witness:
  "sessions_since
      [session_at 1700000000000, session_at 1699900000000, session_at 1699800000000,
       session_at 1699700000000, session_at 1690000000000] (1700000000000 - 7 * msPerDay) = 4
   \<and> weeklyGoalProgress (getUserDashboardStats (fixed_zone 0)
      [session_at 1700000000000, session_at 1699900000000, session_at 1699800000000,
       session_at 1699700000000, session_at 1690000000000] [] 1700000000000 1700000000000) = 100
   \<and> sessions_since [session_at 1690000000000] (1700000000000 - 7 * msPerDay) = 0
   \<and> weeklyGoalProgress (getUserDashboardStats (fixed_zone 0) [session_at 1690000000000] []
        1700000000000 1700000000000) = 0"
proof -
  have four: "sessions_since
      [session_at 1700000000000, session_at 1699900000000, session_at 1699800000000,
       session_at 1699700000000, session_at 1690000000000] (1700000000000 - 7 * msPerDay) = 4"
    by (simp add: sessions_since_def session_at_def msPerDay_def)
  have none: "sessions_since [session_at 1690000000000] (1700000000000 - 7 * msPerDay) = 0"
    by (simp add: sessions_since_def session_at_def msPerDay_def)
  show ?thesis
    using four none
      weeklyGoalProgress_since_week_ago
        [of "fixed_zone 0"
          "[session_at 1700000000000, session_at 1699900000000, session_at 1699800000000,
            session_at 1699700000000, session_at 1690000000000]" "[]"
          1700000000000 1700000000000]
      weeklyGoalProgress_since_week_ago [of "fixed_zone 0" "[session_at 1690000000000]" "[]"
          1700000000000 1700000000000]
    by simp
qed

section \<open>The workout streak\<close>

lemma msPerDay_pos: "0 < msPerDay"
  by (simp add: msPerDay_def)

text \<open>The count the loop starts from is added to the count of the days it finds.\<close>

lemma streak_loop_acc: "streak_loop tz xs c k = k + streak_loop tz xs c 0"
proof (induction xs arbitrary: c k)
  case Nil
  show ?case by simp
next
  case (Cons x xs)
  have a: "streak_loop tz xs (setDate_yesterday tz c) (k + 1)
      = (k + 1) + streak_loop tz xs (setDate_yesterday tz c) 0"
    by (rule Cons.IH)
  have b: "streak_loop tz xs (setDate_yesterday tz c) (0 + 1)
      = (0 + 1) + streak_loop tz xs (setDate_yesterday tz c) 0"
    by (rule Cons.IH)
  have d: "streak_loop tz xs c k = k + streak_loop tz xs c 0"
    by (rule Cons.IH)
  show ?case using a b d by (simp add: Let_def)
qed

subsection \<open>In a zone of constant offset\<close>

lemma local_day_fixed: "local_day (fixed_zone off) t = (t + off) div msPerDay"
  by (simp add: local_day_def LocalTime_def Day_def fixed_zone_def)

lemma local_day_fixed_mono:
  "t \<le> u \<Longrightarrow> local_day (fixed_zone off) t \<le> local_day (fixed_zone off) u"
  unfolding local_day_fixed using msPerDay_pos by (simp add: zdiv_mono1)

lemma local_day_fixed_shift:
  "local_day (fixed_zone off) (t - int i * msPerDay) = local_day (fixed_zone off) t - int i"
proof -
  have "(t - int i * msPerDay + off) div msPerDay = (t + off + (- int i) * msPerDay) div msPerDay"
    by (simp add: algebra_simps)
  also have "\<dots> = (t + off) div msPerDay + (- int i)"
    using msPerDay_pos by (subst div_mult_self1) simp_all
  finally show ?thesis by (simp add: local_day_fixed)
qed

text \<open>The local midnight of a time value, and the step from a local midnight to the one before.\<close>

lemma setHours_midnight_fixed:
  "setHours_midnight (fixed_zone off) t = local_day (fixed_zone off) t * msPerDay - off"
  by (simp add: setHours_midnight_def local_day_def UTC_def fixed_zone_def)

lemma setDate_yesterday_fixed:
  "setDate_yesterday (fixed_zone off) (d * msPerDay - off) = (d - 1) * msPerDay - off"
proof -
  have "LocalTime (fixed_zone off) (d * msPerDay - off) = d * msPerDay"
    by (simp add: LocalTime_def fixed_zone_def)
  moreover have "Day (d * msPerDay) = d"
    using msPerDay_pos by (simp add: Day_def)
  ultimately show ?thesis
    by (simp add: setDate_yesterday_def UTC_def fixed_zone_def)
qed

lemma midnight_eq_iff: "(a * msPerDay - off = b * msPerDay - off) = (a = b)"
  using msPerDay_pos by simp

lemma midnight_less_iff: "(a * msPerDay - off < b * msPerDay - off) = (a < b)"
  using msPerDay_pos by simp

text \<open>
  On a list with the latest session first, the loop returns the length of the run of
  local days, each with a session, that ends at the day of the cursor.
\<close>

lemma streak_loop_run_fixed:
  "sorted (map (\<lambda>s. - date s) xs) \<Longrightarrow>
   (\<forall>i < streak_loop (fixed_zone off) xs (d * msPerDay - off) 0.
       on_day (fixed_zone off) xs (d - int i))
   \<and> \<not> on_day (fixed_zone off) xs
         (d - int (streak_loop (fixed_zone off) xs (d * msPerDay - off) 0))"
proof (induction xs arbitrary: d)
  case Nil
  show ?case by (simp add: on_day_def)
next
  case (Cons x xs)
  let ?tz = "fixed_zone off"
  let ?dx = "local_day ?tz (date x)"
  from Cons.prems have srt: "sorted (map (\<lambda>s. - date s) xs)"
    and le: "\<forall>y \<in> set xs. date y \<le> date x" by auto
  have days_le: "\<forall>y \<in> set xs. local_day ?tz (date y) \<le> ?dx"
    using le local_day_fixed_mono by blast
  have step: "streak_loop ?tz (x # xs) (d * msPerDay - off) 0 =
      (if ?dx = d then streak_loop ?tz xs ((d - 1) * msPerDay - off) 1
       else if ?dx < d then 0
       else streak_loop ?tz xs (d * msPerDay - off) 0)"
    by (simp add: Let_def setHours_midnight_fixed setDate_yesterday_fixed midnight_eq_iff
        midnight_less_iff)
  consider (hit) "?dx = d" | (gap) "?dx < d" | (later) "d < ?dx"
    by linarith
  then show ?case
  proof cases
    case hit
    let ?n = "streak_loop ?tz xs ((d - 1) * msPerDay - off) 0"
    have val: "streak_loop ?tz (x # xs) (d * msPerDay - off) 0 = Suc ?n"
      unfolding step using hit streak_loop_acc [of ?tz xs "(d - 1) * msPerDay - off" 1] by simp
    have ih: "(\<forall>i < ?n. on_day ?tz xs (d - 1 - int i)) \<and> \<not> on_day ?tz xs (d - 1 - int ?n)"
      using Cons.IH [OF srt, of "d - 1"] by blast
    have run: "on_day ?tz (x # xs) (d - int i)" if "i < Suc ?n" for i
    proof (cases i)
      case 0
      then show ?thesis using hit by (simp add: on_day_def)
    next
      case (Suc j)
      with that have "j < ?n" by simp
      with ih have "on_day ?tz xs (d - 1 - int j)" by blast
      then show ?thesis unfolding Suc by (auto simp: on_day_def algebra_simps)
    qed
    have nx: "?dx \<noteq> d - int (Suc ?n)" using hit by simp
    have "\<not> on_day ?tz xs (d - int (Suc ?n))"
      using ih by (simp add: algebra_simps)
    with nx have stop: "\<not> on_day ?tz (x # xs) (d - int (Suc ?n))"
      by (simp add: on_day_def)
    show ?thesis unfolding val using run stop by blast
  next
    case gap
    then have val: "streak_loop ?tz (x # xs) (d * msPerDay - off) 0 = 0"
      unfolding step by simp
    have "\<not> on_day ?tz (x # xs) d" using gap days_le by (fastforce simp: on_day_def)
    then show ?thesis unfolding val by simp
  next
    case later
    let ?n = "streak_loop ?tz xs (d * msPerDay - off) 0"
    from later have val: "streak_loop ?tz (x # xs) (d * msPerDay - off) 0 = ?n"
      unfolding step by simp
    have ih: "(\<forall>i < ?n. on_day ?tz xs (d - int i)) \<and> \<not> on_day ?tz xs (d - int ?n)"
      using Cons.IH [OF srt, of d] by blast
    have nx: "?dx \<noteq> d - int ?n" using later by linarith
    have run: "\<forall>i < ?n. on_day ?tz (x # xs) (d - int i)"
      using ih by (simp add: on_day_def)
    have stop: "\<not> on_day ?tz (x # xs) (d - int ?n)"
      using ih nx by (simp add: on_day_def)
    show ?thesis unfolding val using run stop by blast
  qed
qed

lemma on_day_sort_key: "on_day tz (sort_key f xs) d = on_day tz xs d"
  by (simp add: on_day_def)

text \<open>
  In a zone of constant offset the streak is the number of consecutive local days, ending
  at the day of the reference date, that each have a session: each of the streak's days
  has one and the day before them has none.
\<close>

lemma workoutStreak_fixed_zone:
  "(\<forall>i < workoutStreak_of (fixed_zone off) sessions as_of.
       on_day (fixed_zone off) sessions (local_day (fixed_zone off) as_of - int i))
   \<and> \<not> on_day (fixed_zone off) sessions
         (local_day (fixed_zone off) as_of
            - int (workoutStreak_of (fixed_zone off) sessions as_of))"
  using streak_loop_run_fixed
    [of "sort_key (\<lambda>s. - date s) sessions" off "local_day (fixed_zone off) as_of"]
  by (simp add: workoutStreak_of_def on_day_sort_key setHours_midnight_fixed)

lemma workoutStreak_fixed_zone_examples:
  "workoutStreak_of (fixed_zone off)
     [session_at t, session_at (t - msPerDay), session_at (t - 2 * msPerDay)] t = 3"
  "workoutStreak_of (fixed_zone off) [session_at t, session_at t] t = 1"
  "workoutStreak_of (fixed_zone off) [session_at (t - msPerDay)] t = 0"
  using msPerDay_pos local_day_fixed_shift [of off t 1] local_day_fixed_shift [of off t 2]
  by (simp_all add: workoutStreak_of_def session_at_def setHours_midnight_fixed
      setDate_yesterday_fixed midnight_eq_iff midnight_less_iff Let_def)

text \<open>With at most 100 stored sessions the query's limit drops none of them.\<close>

lemma workoutStreak_getUserDashboardStats:
  assumes "length sessionDocs \<le> 100"
  shows "workoutStreak (getUserDashboardStats tz sessionDocs metricDocs now clock)
           = workoutStreak_of tz sessionDocs clock"
proof -
  let ?f = "\<lambda>s. - date s"
  from assms have "getUserWorkoutSessions sessionDocs 100 = sort_key ?f sessionDocs"
    by (simp add: getUserWorkoutSessions_def)
  moreover have "sort_key ?f (sort_key ?f sessionDocs) = sort_key ?f sessionDocs"
    by (rule sort_key_id_if_sorted) (rule sorted_sort_key)
  ultimately show ?thesis
    by (simp add: getUserDashboardStats_def workoutStreak_of_def Let_def)
qed

subsection \<open>In a zone whose clocks skip midnight\<close>

lemma america_santiago_offsets:
  "offset_at_utc america_santiago t = (if t < 1693713600000 then - 14400000 else - 10800000)"
  "offset_at_local america_santiago t = (if t < 1693702800000 then - 14400000 else - 10800000)"
  by (simp_all add: america_santiago_def zone_with_change_def)

text \<open>
  C6. The streak is to be the number of consecutive calendar days, ending at the day of
  the reference date, that each have a session. In America/Santiago, with one session at
  noon of each of the five days from 1 to 5 September 2023 and the reference date at noon
  of 5 September, the five local days 19601 to 19605 each have a session and the day
  before them has none, so that number is 5; the code returns 3. The local day of
  3 September starts at 01:00: the cursor set to it keeps 01:00 when \<open>setDate\<close> moves
  it to 2 September, and the session of that day, taken to 00:00, is earlier than the
  cursor and ends the loop.
\<close>

theorem workoutStreak_cut_at_skipped_midnight:
  "workoutStreak_of america_santiago
      [session_at 1693926000000, session_at 1693839600000, session_at 1693753200000,
       session_at 1693670400000, session_at 1693584000000] 1693926000000 = 3
   \<and> workoutStreak (getUserDashboardStats america_santiago
      [session_at 1693926000000, session_at 1693839600000, session_at 1693753200000,
       session_at 1693670400000, session_at 1693584000000] [] 1693926000000 1693926000000) = 3
   \<and> local_day america_santiago 1693926000000 = 19605
   \<and> local_day america_santiago (date (session_at 1693926000000)) = 19605
   \<and> local_day america_santiago (date (session_at 1693839600000)) = 19604
   \<and> local_day america_santiago (date (session_at 1693753200000)) = 19603
   \<and> local_day america_santiago (date (session_at 1693670400000)) = 19602
   \<and> local_day america_santiago (date (session_at 1693584000000)) = 19601
   \<and> \<not> on_day america_santiago
      [session_at 1693926000000, session_at 1693839600000, session_at 1693753200000,
       session_at 1693670400000, session_at 1693584000000] 19600"
proof -
  let ?S = "[session_at 1693926000000, session_at 1693839600000, session_at 1693753200000,
       session_at 1693670400000, session_at 1693584000000]"
  have three: "workoutStreak_of america_santiago ?S 1693926000000 = 3"
    by (simp add: workoutStreak_of_def session_at_def setHours_midnight_def
        setDate_yesterday_def LocalTime_def UTC_def Day_def america_santiago_offsets
        msPerDay_def Let_def)
  have "length ?S \<le> 100" by simp
  then have top: "workoutStreak (getUserDashboardStats america_santiago ?S []
      1693926000000 1693926000000) = 3"
    using three by (simp only: workoutStreak_getUserDashboardStats)
  have days: "local_day america_santiago 1693926000000 = 19605"
    "local_day america_santiago 1693839600000 = 19604"
    "local_day america_santiago 1693753200000 = 19603"
    "local_day america_santiago 1693670400000 = 19602"
    "local_day america_santiago 1693584000000 = 19601"
    by (simp_all add: local_day_def LocalTime_def Day_def america_santiago_offsets msPerDay_def)
  have none: "\<not> on_day america_santiago ?S 19600"
    by (simp add: on_day_def session_at_def days)
  show ?thesis using three top days none by (simp add: session_at_def)
qed

end
